theory Spec2Isabelle
  imports Complex_Main
begin

section \<open>Values, dictionaries and exceptions\<close>

text \<open>
  Every value the agents exchange comes from \<^verbatim>\<open>json.loads\<close> or from a Python literal,
  so it is a JSON value. A Python \<^verbatim>\<open>dict\<close> is an association list read with
  \<open>map_of\<close>. Python's \<^verbatim>\<open>int\<close> and \<^verbatim>\<open>float\<close> are both \<open>JNum\<close> over the reals: the
  arithmetic of the model is exact, the rounding of IEEE doubles is not modelled.
\<close>

datatype json =
    JNull
  | JBool bool
  | JNum real
  | JStr string
  | JArr "json list"
  | JObj "(string \<times> json) list"

type_synonym dict = "(string \<times> json) list"

datatype exn_class =
    ValueError | KeyError | AttributeError | TypeError | JSONDecodeError | BackendError

datatype exn = Exn exn_class string

fun cls :: "exn \<Rightarrow> exn_class" where
  "cls (Exn c m) = c"

text \<open>\<^verbatim>\<open>str(e)\<close>\<close>

fun str :: "exn \<Rightarrow> string" where
  "str (Exn c m) = m"

text \<open>Sequencing of two steps of which the first may raise.\<close>

definition and_then :: "exn + 'a \<Rightarrow> ('a \<Rightarrow> exn + 'b) \<Rightarrow> exn + 'b" where
  "and_then r f = (case r of Inl e \<Rightarrow> Inl e | Inr v \<Rightarrow> f v)"

text \<open>\<^verbatim>\<open>d.get(k, default)\<close> on a dict, and \<^verbatim>\<open>d[k]\<close>.\<close>

definition dict_get :: "dict \<Rightarrow> string \<Rightarrow> json \<Rightarrow> json" where
  "dict_get d k dflt = (case map_of d k of None \<Rightarrow> dflt | Some v \<Rightarrow> v)"

definition dict_index :: "dict \<Rightarrow> string \<Rightarrow> exn + json" where
  "dict_index d k = (case map_of d k of None \<Rightarrow> Inl (Exn KeyError k) | Some v \<Rightarrow> Inr v)"

text \<open>
  \<^verbatim>\<open>x.get(k, default)\<close> on an arbitrary value: only a dict has the method, anything
  else raises \<^verbatim>\<open>AttributeError\<close>.
\<close>

fun py_get :: "json \<Rightarrow> string \<Rightarrow> json \<Rightarrow> exn + json" where
  "py_get (JObj d) k dflt = Inr (dict_get d k dflt)"
| "py_get v k dflt = Inl (Exn AttributeError ''object has no attribute get'')"

text \<open>\<^verbatim>\<open>x.values()\<close>\<close>

fun py_values :: "json \<Rightarrow> exn + json list" where
  "py_values (JObj d) = Inr (map snd d)"
| "py_values v = Inl (Exn AttributeError ''object has no attribute values'')"

text \<open>
  The number a value stands for in \<^verbatim>\<open>+\<close>, \<^verbatim>\<open>*\<close> and \<^verbatim>\<open>/\<close> with a number:
  \<^verbatim>\<open>bool\<close> is a subclass of \<^verbatim>\<open>int\<close>; every other value raises \<^verbatim>\<open>TypeError\<close>.
  (Python repeats a string or a list that is multiplied by an \<^verbatim>\<open>int\<close>; the model
  raises there as well, and no statement below depends on that case.)
\<close>

fun as_num :: "json \<Rightarrow> exn + real" where
  "as_num (JNum x) = Inr x"
| "as_num (JBool b) = Inr (if b then 1 else 0)"
| "as_num v = Inl (Exn TypeError ''unsupported operand type(s)'')"

text \<open>\<^verbatim>\<open>sum(xs)\<close>: starts from \<open>0\<close> and adds from the left.\<close>

fun py_sum_from :: "real \<Rightarrow> json list \<Rightarrow> exn + real" where
  "py_sum_from acc [] = Inr acc"
| "py_sum_from acc (v # vs) =
     (case as_num v of Inl e \<Rightarrow> Inl e | Inr x \<Rightarrow> py_sum_from (acc + x) vs)"

definition py_sum :: "json list \<Rightarrow> exn + real" where
  "py_sum vs = py_sum_from 0 vs"

definition py_mul :: "json \<Rightarrow> json \<Rightarrow> exn + real" where
  "py_mul a b = and_then (as_num a) (\<lambda>x. and_then (as_num b) (\<lambda>y. Inr (x * y)))"

section \<open>The environment of a task\<close>

text \<open>
  What a task reads from outside the program: the environment variable
  \<^verbatim>\<open>GROQ_API_KEY\<close>, the language-model backend behind \<^verbatim>\<open>chain.invoke\<close> (given the
  name of the task whose prompt template is used and the template's inputs, it raises or
  returns the text of \<^verbatim>\<open>response.content\<close>), the library function \<^verbatim>\<open>json.loads\<close>
  (\<open>None\<close> is \<^verbatim>\<open>JSONDecodeError\<close>), and today's date.
\<close>

record env =
  api_key :: "string option"
  invoke :: "string \<Rightarrow> dict \<Rightarrow> exn + string"
  loads :: "string \<Rightarrow> json option"
  today :: string

text \<open>\<^verbatim>\<open>backend/utils/llm.py: initialize_llm\<close>. The result stands for the client object.\<close>

definition initialize_llm :: "env \<Rightarrow> exn + unit" where
  "initialize_llm e =
     (case api_key e of
        None \<Rightarrow> Inl (Exn ValueError ''GROQ_API_KEY environment variable is not set'')
      | Some k \<Rightarrow>
          if k = [] then Inl (Exn ValueError ''GROQ_API_KEY environment variable is not set'')
          else Inr ())"

text \<open>
  The body of every task's \<^verbatim>\<open>try\<close> block: \<^verbatim>\<open>response = chain.invoke(...)\<close> and
  \<^verbatim>\<open>result = json.loads(response.content)\<close>. Either line may raise.
\<close>

definition ask_backend :: "env \<Rightarrow> string \<Rightarrow> dict \<Rightarrow> exn + json" where
  "ask_backend e task inputs =
     and_then (invoke e task inputs) (\<lambda>content.
       case loads e content of
         None \<Rightarrow> Inl (Exn JSONDecodeError ''Expecting value'')
       | Some result \<Rightarrow> Inr result)"

text \<open>
  The \<^verbatim>\<open>try\<close> statement of every task: the parsed reply is returned under the task's
  key; \<open>on_decode\<close> is the handler of \<^verbatim>\<open>except json.JSONDecodeError\<close>, \<open>on_error\<close>
  the handler of \<^verbatim>\<open>except Exception as e\<close>. A handler may itself raise.
\<close>

definition try_backend ::
  "env \<Rightarrow> string \<Rightarrow> dict \<Rightarrow> string \<Rightarrow> (exn + json) \<Rightarrow> (exn \<Rightarrow> exn + json) \<Rightarrow> exn + dict" where
  "try_backend e task inputs key on_decode on_error =
     (case ask_backend e task inputs of
        Inr result \<Rightarrow> Inr [(key, result)]
      | Inl x \<Rightarrow>
          and_then (if cls x = JSONDecodeError then on_decode else on_error x)
            (\<lambda>fallback. Inr [(key, fallback)]))"

section \<open>The five analysts and the auditor\<close>

text \<open>
  The prompt inputs are kept as values: where the source renders a value to text
  (\<^verbatim>\<open>str\<close>, \<^verbatim>\<open>json.dumps\<close>, an f-string), the value stands for its rendering.
\<close>

text \<open>Truth value of a value in \<^verbatim>\<open>if x\<close>.\<close>

fun truthy :: "json \<Rightarrow> bool" where
  "truthy JNull = False"
| "truthy (JBool b) = b"
| "truthy (JNum x) = (x \<noteq> 0)"
| "truthy (JStr s) = (s \<noteq> [])"
| "truthy (JArr xs) = (xs \<noteq> [])"
| "truthy (JObj d) = (d \<noteq> [])"

fun join_strs :: "string \<Rightarrow> string list \<Rightarrow> string" where
  "join_strs sep [] = []"
| "join_strs sep [s] = s"
| "join_strs sep (s # t # ss) = s @ sep @ join_strs sep (t # ss)"

text \<open>The strings of a list of values; \<open>None\<close> when one of them is no string.\<close>

fun strings_of :: "json list \<Rightarrow> string list option" where
  "strings_of [] = Some []"
| "strings_of (JStr s # vs) = (case strings_of vs of None \<Rightarrow> None | Some ss \<Rightarrow> Some (s # ss))"
| "strings_of (v # vs) = None"

text \<open>
  \<^verbatim>\<open>", ".join(x)\<close>: a list must hold strings only, a string is iterated by character, a
  dict by key; a number, a boolean or \<^verbatim>\<open>None\<close> is not iterable.
\<close>

fun py_join :: "string \<Rightarrow> json \<Rightarrow> exn + string" where
  "py_join sep (JArr xs) =
     (case strings_of xs of
        None \<Rightarrow> Inl (Exn TypeError ''sequence item: expected str instance'')
      | Some ss \<Rightarrow> Inr (join_strs sep ss))"
| "py_join sep (JStr s) = Inr (join_strs sep (map (\<lambda>c. [c]) s))"
| "py_join sep (JObj d) = Inr (join_strs sep (map fst d))"
| "py_join sep v = Inl (Exn TypeError ''can only join an iterable'')"

text \<open>\<^verbatim>\<open>len(x)\<close>\<close>

fun py_len :: "json \<Rightarrow> exn + nat" where
  "py_len (JArr xs) = Inr (length xs)"
| "py_len (JStr s) = Inr (length s)"
| "py_len (JObj d) = Inr (length d)"
| "py_len v = Inl (Exn TypeError ''object has no len()'')"

text \<open>\<^verbatim>\<open>x.get(a, {}).get(b, default)\<close>\<close>

definition get2 :: "json \<Rightarrow> string \<Rightarrow> string \<Rightarrow> json \<Rightarrow> exn + json" where
  "get2 x a b dflt = and_then (py_get x a (JObj [])) (\<lambda>y. py_get y b dflt)"

subsection \<open>\<^verbatim>\<open>agents/resume.py\<close>\<close>

definition resume_inputs :: "env \<Rightarrow> dict \<Rightarrow> exn + dict" where
  "resume_inputs e state =
     and_then (initialize_llm e) (\<lambda>llm.
     and_then (dict_index state ''job_application'') (\<lambda>job_application.
     and_then (get2 job_application ''resume'' ''text'' (JStr [])) (\<lambda>resume_text.
     and_then (py_get job_application ''job_description'' (JObj [])) (\<lambda>jd.
     and_then (py_get jd ''description'' (JStr [])) (\<lambda>jd_text.
     and_then (py_get jd ''seniority_level'' (JStr ''Mid-Level'')) (\<lambda>jd_seniority.
       Inr [(''resume_text'', resume_text), (''jd_text'', jd_text),
            (''jd_seniority'', jd_seniority)]))))))"

definition resume_fallback :: "string \<Rightarrow> string \<Rightarrow> json" where
  "resume_fallback weakness thought =
     JObj [(''score'', JNum 0),
           (''strengths'', JArr []),
           (''weaknesses'', JArr [JStr weakness]),
           (''seniority_fit'', JStr ''Unknown''),
           (''experience_years'', JNum 0),
           (''thought_process'', JStr thought)]"

definition resume_analyst :: "env \<Rightarrow> dict \<Rightarrow> exn + dict" where
  "resume_analyst e state =
     and_then (resume_inputs e state) (\<lambda>inputs.
       try_backend e ''resume_analyst'' inputs ''resume_score''
         (Inr (resume_fallback ''Failed to parse resume''
            ''I encountered an error while analyzing the resume. Please check the format.''))
         (\<lambda>x. Inr (resume_fallback (''Error: '' @ str x) (''I encountered an error: '' @ str x))))"

subsection \<open>\<^verbatim>\<open>agents/cover_letter.py\<close>\<close>

definition cover_letter_inputs :: "env \<Rightarrow> dict \<Rightarrow> exn + dict" where
  "cover_letter_inputs e state =
     and_then (initialize_llm e) (\<lambda>llm.
     and_then (dict_index state ''job_application'') (\<lambda>job_application.
     and_then (get2 job_application ''cover_letter'' ''text'' (JStr [])) (\<lambda>cover_letter_text.
     and_then (get2 job_application ''job_description'' ''company_name'' (JStr ''Unknown Company'')) (\<lambda>company.
     and_then (get2 job_application ''job_description'' ''role'' (JStr ''Unknown Role'')) (\<lambda>role.
       Inr [(''cover_letter_text'', cover_letter_text), (''company_name'', company),
            (''role'', role)])))))"

definition cover_letter_fallback :: "string \<Rightarrow> string \<Rightarrow> json" where
  "cover_letter_fallback flag thought =
     JObj [(''score'', JNum 0),
           (''clarity_rating'', JNum 0),
           (''motivation_level'', JStr ''Unknown''),
           (''company_mention_specificity'', JStr ''Unknown''),
           (''red_flags'', JArr [JStr flag]),
           (''strengths'', JArr []),
           (''thought_process'', JStr thought)]"

definition cover_letter_analyst :: "env \<Rightarrow> dict \<Rightarrow> exn + dict" where
  "cover_letter_analyst e state =
     and_then (cover_letter_inputs e state) (\<lambda>inputs.
       try_backend e ''cover_letter_analyst'' inputs ''cover_letter_score''
         (Inr (cover_letter_fallback ''Failed to parse cover letter''
            ''I encountered an error while analyzing the cover letter. Please check the format.''))
         (\<lambda>x. Inr (cover_letter_fallback (''Error: '' @ str x) (''I encountered an error: '' @ str x))))"

subsection \<open>\<^verbatim>\<open>agents/jd_match.py\<close>\<close>

text \<open>\<^verbatim>\<open>", ".join(skills) if skills else "None specified"\<close>\<close>

definition skills_str :: "json \<Rightarrow> exn + string" where
  "skills_str skills = (if truthy skills then py_join '', '' skills else Inr ''None specified'')"

text \<open>The inputs of the prompt, and \<^verbatim>\<open>required_skills\<close>, which the handlers use.\<close>

definition jd_match_inputs :: "env \<Rightarrow> dict \<Rightarrow> exn + dict \<times> json" where
  "jd_match_inputs e state =
     and_then (initialize_llm e) (\<lambda>llm.
     and_then (dict_index state ''job_application'') (\<lambda>job_application.
     and_then (get2 job_application ''resume'' ''text'' (JStr [])) (\<lambda>resume_text.
     and_then (py_get job_application ''job_description'' (JObj [])) (\<lambda>jd.
     and_then (py_get jd ''skills_required'' (JArr [])) (\<lambda>required_skills.
     and_then (py_get jd ''skills_nice_to_have'' (JArr [])) (\<lambda>nice_to_have.
     and_then (skills_str required_skills) (\<lambda>required_str.
     and_then (skills_str nice_to_have) (\<lambda>nice_to_have_str.
       Inr ([(''resume_text'', resume_text), (''required_skills'', JStr required_str),
             (''nice_to_have_skills'', JStr nice_to_have_str)], required_skills)))))))))"

definition jd_match_fallback :: "json \<Rightarrow> string \<Rightarrow> json" where
  "jd_match_fallback required_skills thought =
     JObj [(''score'', JNum 0),
           (''required_skills_matched'', JArr []),
           (''required_skills_missing'', required_skills),
           (''nice_to_have_matched'', JArr []),
           (''match_percentage'', JNum 0),
           (''skill_depth_assessment'', JStr ''Unknown''),
           (''thought_process'', JStr thought)]"

definition jd_match_analyst :: "env \<Rightarrow> dict \<Rightarrow> exn + dict" where
  "jd_match_analyst e state =
     and_then (jd_match_inputs e state) (\<lambda>(inputs, required_skills).
       try_backend e ''jd_match_analyst'' inputs ''jd_match_score''
         (Inr (jd_match_fallback required_skills
            ''I encountered an error while analyzing the skill match. Please check the format.''))
         (\<lambda>x. Inr (jd_match_fallback required_skills (''I encountered an error: '' @ str x))))"

subsection \<open>\<^verbatim>\<open>agents/github.py\<close>\<close>

text \<open>The inputs of the prompt, and \<^verbatim>\<open>repos\<close>, whose length the handlers take.\<close>

definition github_inputs :: "env \<Rightarrow> dict \<Rightarrow> exn + dict \<times> json" where
  "github_inputs e state =
     and_then (initialize_llm e) (\<lambda>llm.
     and_then (dict_index state ''job_application'') (\<lambda>job_application.
     and_then (py_get job_application ''github'' (JObj [])) (\<lambda>github_data.
     and_then (py_get github_data ''repo_list'' (JArr [])) (\<lambda>repos.
     and_then (py_get github_data ''username'' (JStr ''Unknown'')) (\<lambda>github_username.
     let repos_str = (if truthy repos then repos else JStr ''No repositories found'') in
       Inr ([(''github_username'', github_username), (''repos_data'', repos_str),
             (''today'', JStr (today e))], repos))))))"

definition github_fallback :: "json \<Rightarrow> string \<Rightarrow> string \<Rightarrow> exn + json" where
  "github_fallback repos flag thought =
     and_then (py_len repos) (\<lambda>n.
       Inr (JObj [(''score'', JNum 0),
                  (''total_repos'', JNum (real n)),
                  (''high_quality_repos'', JArr []),
                  (''recent_activity'', JStr ''Unknown''),
                  (''language_diversity'', JArr []),
                  (''portfolio_strength'', JStr ''Unknown''),
                  (''red_flags'', JArr [JStr flag]),
                  (''thought_process'', JStr thought)]))"

definition github_analyst :: "env \<Rightarrow> dict \<Rightarrow> exn + dict" where
  "github_analyst e state =
     and_then (github_inputs e state) (\<lambda>(inputs, repos).
       try_backend e ''github_analyst'' inputs ''github_score''
         (github_fallback repos ''Failed to parse GitHub data''
            ''I encountered an error while analyzing the GitHub profile. Please check the data format.'')
         (\<lambda>x. github_fallback repos (''Error: '' @ str x) (''I encountered an error: '' @ str x)))"

subsection \<open>\<^verbatim>\<open>agents/location.py\<close>\<close>

definition location_inputs :: "env \<Rightarrow> dict \<Rightarrow> exn + dict" where
  "location_inputs e state =
     and_then (initialize_llm e) (\<lambda>llm.
     and_then (dict_index state ''job_application'') (\<lambda>job_application.
     and_then (get2 job_application ''personal_info'' ''location'' (JObj [])) (\<lambda>applicant_location.
     and_then (py_get applicant_location ''city'' (JStr ''Unknown'')) (\<lambda>applicant_city.
     and_then (py_get applicant_location ''country'' (JStr ''Unknown'')) (\<lambda>applicant_country.
     and_then (get2 job_application ''personal_info'' ''willing_to_relocate'' (JBool False)) (\<lambda>willing.
     and_then (py_get job_application ''job_description'' (JObj [])) (\<lambda>job_description.
     and_then (py_get job_description ''location_type'' (JStr ''Unknown'')) (\<lambda>job_location_type.
     and_then (py_get job_description ''location'' (JObj [])) (\<lambda>job_location.
     and_then (py_get job_location ''city'' (JStr ''Unknown'')) (\<lambda>job_city.
     and_then (py_get job_location ''country'' (JStr ''Unknown'')) (\<lambda>job_country.
       Inr [(''applicant_city'', applicant_city), (''applicant_country'', applicant_country),
            (''willing_to_relocate'', willing), (''job_location_type'', job_location_type),
            (''job_city'', job_city), (''job_country'', job_country)])))))))))))"

definition location_fallback :: "string \<Rightarrow> string \<Rightarrow> json" where
  "location_fallback risk thought =
     JObj [(''score'', JNum 50),
           (''location_match'', JStr ''Unknown''),
           (''feasibility'', JStr ''Unknown''),
           (''relocation_required'', JBool False),
           (''visa_sponsorship_needed'', JBool False),
           (''commute_feasibility'', JStr ''Unknown''),
           (''risk_factors'', JArr [JStr risk]),
           (''thought_process'', JStr thought)]"

definition location_coordinator :: "env \<Rightarrow> dict \<Rightarrow> exn + dict" where
  "location_coordinator e state =
     and_then (location_inputs e state) (\<lambda>inputs.
       try_backend e ''location_coordinator'' inputs ''location_score''
         (Inr (location_fallback ''Failed to parse location data''
            ''I encountered an error while analyzing location fit. Please check the data format.''))
         (\<lambda>x. Inr (location_fallback (''Error: '' @ str x) (''I encountered an error: '' @ str x))))"

subsection \<open>\<^verbatim>\<open>agents/fairness.py\<close>\<close>

definition fairness_inputs :: "env \<Rightarrow> dict \<Rightarrow> exn + dict" where
  "fairness_inputs e state =
     and_then (initialize_llm e) (\<lambda>llm.
     and_then (dict_index state ''job_application'') (\<lambda>job_application.
     and_then (py_get job_application ''personal_info'' (JObj [])) (\<lambda>personal_info.
     and_then (py_get personal_info ''name'' (JStr ''Unknown'')) (\<lambda>name.
     and_then (py_get personal_info ''location'' (JObj [])) (\<lambda>location.
     and_then (py_get personal_info ''gender'' (JStr ''Not disclosed'')) (\<lambda>gender.
     and_then (py_get personal_info ''age'' (JStr ''Not disclosed'')) (\<lambda>age.
     let resume = dict_get state ''resume_score'' (JObj []);
         cover = dict_get state ''cover_letter_score'' (JObj []);
         jd = dict_get state ''jd_match_score'' (JObj []);
         github = dict_get state ''github_score'' (JObj []);
         loc = dict_get state ''location_score'' (JObj [])
     in
     and_then (py_get resume ''score'' (JNum 0)) (\<lambda>s_resume.
     and_then (py_get cover ''score'' (JNum 0)) (\<lambda>s_cover.
     and_then (py_get jd ''score'' (JNum 0)) (\<lambda>s_jd.
     and_then (py_get github ''score'' (JNum 0)) (\<lambda>s_github.
     and_then (py_get loc ''score'' (JNum 0)) (\<lambda>s_loc.
       Inr [(''candidate_name'', name), (''candidate_location'', location),
            (''gender'', gender), (''age'', age),
            (''scores_summary'', JObj
               [(''resume_score'', s_resume), (''cover_letter_score'', s_cover),
                (''jd_match_score'', s_jd), (''github_score'', s_github),
                (''location_score'', s_loc)]),
            (''all_scores'', JObj
               [(''resume_score'', resume), (''cover_letter_score'', cover),
                (''jd_match_score'', jd), (''github_score'', github),
                (''location_score'', loc)])]))))))))))))"

definition fairness_fallback :: "string \<Rightarrow> json list \<Rightarrow> string \<Rightarrow> json" where
  "fairness_fallback concern recommendations thought =
     JObj [(''bias_detected'', JBool False),
           (''bias_types_found'', JArr []),
           (''score_adjustments'', JObj
              [(''resume_adjustment'', JNum 0), (''github_adjustment'', JNum 0),
               (''jd_match_adjustment'', JNum 0), (''cover_letter_adjustment'', JNum 0),
               (''location_adjustment'', JNum 0)]),
           (''total_adjustment'', JNum 0),
           (''concerns'', JArr [JStr concern]),
           (''recommendations'', JArr recommendations),
           (''thought_process'', JStr thought)]"

definition fairness_auditor :: "env \<Rightarrow> dict \<Rightarrow> exn + dict" where
  "fairness_auditor e state =
     and_then (fairness_inputs e state) (\<lambda>inputs.
       try_backend e ''fairness_auditor'' inputs ''fairness_audit''
         (Inr (fairness_fallback ''Failed to parse fairness audit'' [JStr ''Please check data format'']
            ''I encountered an error while performing the fairness audit. Please check the data format.''))
         (\<lambda>x. Inr (fairness_fallback (''Error: '' @ str x) [] (''I encountered an error: '' @ str x))))"

section \<open>The referee (decision task)\<close>

text \<open>\<^verbatim>\<open>state.get(key, {}).get("score", 0)\<close>\<close>

definition score_of :: "dict \<Rightarrow> string \<Rightarrow> exn + json" where
  "score_of state key = py_get (dict_get state key (JObj [])) ''score'' (JNum 0)"

definition default_weights :: dict where
  "default_weights =
     [(''resume'', JNum 0.2), (''cover_letter'', JNum 0.15), (''jd_match'', JNum 0.3),
      (''github'', JNum 0.2), (''location'', JNum 0.15)]"

text \<open>\<^verbatim>\<open>{k: v / total_weight for k, v in weights.items()}\<close>\<close>

fun divide_values :: "dict \<Rightarrow> real \<Rightarrow> exn + dict" where
  "divide_values [] t = Inr []"
| "divide_values ((k, v) # kvs) t =
     (case as_num v of
        Inl e \<Rightarrow> Inl e
      | Inr x \<Rightarrow> (case divide_values kvs t of Inl e \<Rightarrow> Inl e | Inr r \<Rightarrow> Inr ((k, JNum (x / t)) # r)))"

text \<open>
  Lines 36--39: \<^verbatim>\<open>total_weight = sum(weights.values())\<close>, and the weights are divided
  by it only when it is positive.
\<close>

definition normalize_weights :: "json \<Rightarrow> exn + dict" where
  "normalize_weights weights =
     and_then (py_values weights) (\<lambda>vs.
     and_then (py_sum vs) (\<lambda>total_weight.
       case weights of
         JObj d \<Rightarrow> if total_weight > 0 then divide_values d total_weight else Inr d
       | _ \<Rightarrow> Inl (Exn AttributeError ''object has no attribute items'')))"

text \<open>One summand of lines 127--133: \<^verbatim>\<open>score * weights.get(name, default)\<close>.\<close>

definition weighted :: "json \<Rightarrow> dict \<Rightarrow> string \<Rightarrow> real \<Rightarrow> exn + real" where
  "weighted score weights name dflt = py_mul score (dict_get weights name (JNum dflt))"

text \<open>What the referee has computed when it reaches its \<^verbatim>\<open>try\<close> block.\<close>

record referee_vars =
  resume_score :: json
  cover_letter_score :: json
  jd_match_score :: json
  github_score :: json
  location_score :: json
  weights :: dict
  strictness :: json
  fairness_audit :: json
  total_fairness_adjustment :: json
  bias_detected :: json
  candidate_name :: json
  job_role :: json
  company_name :: json
  jd_match_weighted :: real
  github_weighted :: real
  resume_weighted :: real
  cover_letter_weighted :: real
  location_weighted :: real
  weighted_before_fairness :: real

text \<open>
  Lines 16--133 of \<^verbatim>\<open>referee_agent\<close>, in the order of the source; every step that can
  raise is outside the \<^verbatim>\<open>try\<close> block, so its exception leaves the task.
\<close>

definition referee_prepare :: "env \<Rightarrow> dict \<Rightarrow> exn + referee_vars" where
  "referee_prepare e state =
     and_then (initialize_llm e) (\<lambda>llm.
     and_then (score_of state ''resume_score'') (\<lambda>resume.
     and_then (score_of state ''cover_letter_score'') (\<lambda>cover.
     and_then (score_of state ''jd_match_score'') (\<lambda>jd.
     and_then (score_of state ''github_score'') (\<lambda>github.
     and_then (score_of state ''location_score'') (\<lambda>location.
     let hiring_criteria = dict_get state ''hiring_criteria'' (JObj []) in
     and_then (py_get hiring_criteria ''weights'' (JObj default_weights)) (\<lambda>weights0.
     and_then (py_get hiring_criteria ''strictness'' (JStr ''medium'')) (\<lambda>strict.
     and_then (normalize_weights weights0) (\<lambda>ws.
     let audit = dict_get state ''fairness_audit'' (JObj []) in
     and_then (py_get audit ''score_adjustments'' (JObj [])) (\<lambda>adjustments.
     and_then (py_get audit ''total_adjustment'' (JNum 0)) (\<lambda>total_adj.
     and_then (py_get audit ''bias_detected'' (JBool False)) (\<lambda>bias.
     and_then (dict_index state ''job_application'') (\<lambda>job_application.
     and_then (and_then (py_get job_application ''personal_info'' (JObj []))
                 (\<lambda>p. py_get p ''name'' (JStr ''Unknown''))) (\<lambda>name.
     and_then (and_then (py_get job_application ''job_description'' (JObj []))
                 (\<lambda>j. py_get j ''role'' (JStr ''Unknown''))) (\<lambda>role.
     and_then (and_then (py_get job_application ''job_description'' (JObj []))
                 (\<lambda>j. py_get j ''company_name'' (JStr ''Unknown''))) (\<lambda>company.
     and_then (weighted jd ws ''jd_match'' 0.3) (\<lambda>w_jd.
     and_then (weighted github ws ''github'' 0.2) (\<lambda>w_github.
     and_then (weighted resume ws ''resume'' 0.2) (\<lambda>w_resume.
     and_then (weighted cover ws ''cover_letter'' 0.15) (\<lambda>w_cover.
     and_then (weighted location ws ''location'' 0.15) (\<lambda>w_location.
       Inr \<lparr> resume_score = resume, cover_letter_score = cover, jd_match_score = jd,
             github_score = github, location_score = location, weights = ws,
             strictness = strict, fairness_audit = audit,
             total_fairness_adjustment = total_adj, bias_detected = bias,
             candidate_name = name, job_role = role, company_name = company,
             jd_match_weighted = w_jd, github_weighted = w_github,
             resume_weighted = w_resume, cover_letter_weighted = w_cover,
             location_weighted = w_location,
             weighted_before_fairness = w_jd + w_github + w_resume + w_cover + w_location
           \<rparr>)))))))))))))))))))))"

text \<open>
  The inputs of \<^verbatim>\<open>chain.invoke\<close> (lines 136--150). \<open>weights_str\<close> is the rendering of
  the normalised weights and stands here as the weights themselves, \<open>fairness_details\<close>
  is the \<^verbatim>\<open>json.dumps\<close> of the audit and stands as the audit itself.
\<close>

definition referee_inputs :: "referee_vars \<Rightarrow> dict" where
  "referee_inputs v =
     [(''candidate_name'', candidate_name v),
      (''company_name'', company_name v),
      (''job_role'', job_role v),
      (''weights_str'', JObj (weights v)),
      (''jd_match_score'', jd_match_score v),
      (''github_score'', github_score v),
      (''resume_score'', resume_score v),
      (''cover_letter_score'', cover_letter_score v),
      (''location_score'', location_score v),
      (''fairness_adjustment'', total_fairness_adjustment v),
      (''bias_detected'', bias_detected v),
      (''fairness_details'', fairness_audit v),
      (''strictness'', strictness v)]"

text \<open>
  The verdict built by both \<^verbatim>\<open>except\<close> handlers (lines 158--176 and 178--196); they
  differ in four texts only. The sum \<^verbatim>\<open>weighted_before_fairness +
  total_fairness_adjustment\<close> is computed inside the handler and raises
  \<^verbatim>\<open>TypeError\<close> when the audit's adjustment is not a number.
\<close>

definition referee_fallback ::
  "referee_vars \<Rightarrow> string \<Rightarrow> string \<Rightarrow> string \<Rightarrow> string \<Rightarrow> exn + json" where
  "referee_fallback v reasoning concern next_steps thought =
     and_then (as_num (total_fairness_adjustment v)) (\<lambda>adj.
       Inr (JObj
         [(''final_score'', JNum (weighted_before_fairness v + adj)),
          (''verdict'', JStr ''MAYBE''),
          (''weighted_scores'', JObj
             [(''jd_match_weighted'', JNum (jd_match_weighted v)),
              (''github_weighted'', JNum (github_weighted v)),
              (''resume_weighted'', JNum (resume_weighted v)),
              (''cover_letter_weighted'', JNum (cover_letter_weighted v)),
              (''location_weighted'', JNum (location_weighted v))]),
          (''fairness_adjustment_applied'', total_fairness_adjustment v),
          (''decision_reasoning'', JStr reasoning),
          (''key_strengths'', JArr []),
          (''key_concerns'', JArr [JStr concern]),
          (''next_steps'', JStr next_steps),
          (''thought_process'', JStr thought)]))"

definition referee_on_decode :: "referee_vars \<Rightarrow> exn + json" where
  "referee_on_decode v =
     referee_fallback v
       ''Unable to parse full reasoning due to data format error.''
       ''Data format error in analysis''
       ''Please review data and rerun analysis.''
       ''I encountered an error while making the final decision using the custom weights. The preliminary weighted score is approximately the calculated value, but please check the data format.''"

definition referee_on_error :: "referee_vars \<Rightarrow> exn \<Rightarrow> exn + json" where
  "referee_on_error v x =
     referee_fallback v
       (''Error: '' @ str x)
       (''Error: '' @ str x)
       ''Please review the error and rerun analysis.''
       (''I encountered an error while applying custom weights: '' @ str x)"

text \<open>Lines 135--196: the \<^verbatim>\<open>try\<close> block and its handlers.\<close>

definition referee_decide :: "env \<Rightarrow> referee_vars \<Rightarrow> exn + dict" where
  "referee_decide e v =
     try_backend e ''referee_agent'' (referee_inputs v) ''final_verdict''
       (referee_on_decode v) (referee_on_error v)"

definition referee_agent :: "env \<Rightarrow> dict \<Rightarrow> exn + dict" where
  "referee_agent e state = and_then (referee_prepare e state) (referee_decide e)"

section \<open>The graph\<close>

text \<open>The seven nodes of \<^verbatim>\<open>backend/graph.py\<close>, lines 39--45, and the functions bound to them.\<close>

datatype task = Resume | CoverLetter | JdMatch | Github | Location | Fairness | Referee

fun node_name :: "task \<Rightarrow> string" where
  "node_name Resume = ''resume_analyst''"
| "node_name CoverLetter = ''cover_letter_analyst''"
| "node_name JdMatch = ''jd_match_analyst''"
| "node_name Github = ''github_analyst''"
| "node_name Location = ''location_coordinator''"
| "node_name Fairness = ''fairness_auditor''"
| "node_name Referee = ''referee_agent''"

fun run_task :: "task \<Rightarrow> env \<Rightarrow> dict \<Rightarrow> exn + dict" where
  "run_task Resume = resume_analyst"
| "run_task CoverLetter = cover_letter_analyst"
| "run_task JdMatch = jd_match_analyst"
| "run_task Github = github_analyst"
| "run_task Location = location_coordinator"
| "run_task Fairness = fairness_auditor"
| "run_task Referee = referee_agent"

definition all_tasks :: "task list" where
  "all_tasks = [Resume, CoverLetter, JdMatch, Github, Location, Fairness, Referee]"

datatype vertex = START | Node task | END

text \<open>Lines 48--65: the edges, in the order of the calls of \<^verbatim>\<open>add_edge\<close>.\<close>

definition edges :: "(vertex \<times> vertex) list" where
  "edges =
     [(START, Node Resume), (START, Node CoverLetter), (START, Node JdMatch),
      (START, Node Github), (START, Node Location),
      (Node Resume, Node Fairness), (Node CoverLetter, Node Fairness),
      (Node JdMatch, Node Fairness), (Node Github, Node Fairness),
      (Node Location, Node Fairness),
      (Node Fairness, Node Referee),
      (Node Referee, END)]"

section \<open>The scheduler\<close>

text \<open>
  Modelled from the spec: the scheduler that drives the graph. The repository compiles
  the graph with LangGraph and iterates over \<^verbatim>\<open>hiring_graph.astream_events\<close>; that
  runtime is no part of the sources. Sections 4.2 and 4.3 of the specification: a task is
  ready once every task it depends on has a recorded result; each task starts once; as a
  task finishes, its result is recorded in the shared state and reported; the completion
  order within a layer is unspecified; a failure that leaves a task aborts the run.
  A run is therefore given by the order in which the tasks complete.
\<close>

text \<open>The tasks a task depends on, from the edges.\<close>

definition deps :: "task \<Rightarrow> task list" where
  "deps t = concat (map (\<lambda>(a, b). case (a, b) of (Node p, Node q) \<Rightarrow> (if q = t then [p] else []) | _ \<Rightarrow> []) edges)"

text \<open>
  \<open>admissible finished ts\<close>: the tasks \<open>ts\<close> can complete in this order after the tasks
  \<open>finished\<close>: none completes twice and each is ready when it starts.
\<close>

fun admissible :: "task list \<Rightarrow> task list \<Rightarrow> bool" where
  "admissible finished [] = True"
| "admissible finished (t # ts) =
     (t \<notin> set finished \<and> list_all (\<lambda>p. p \<in> set finished) (deps t) \<and> admissible (t # finished) ts)"

text \<open>A complete run: every task completes.\<close>

definition is_schedule :: "task list \<Rightarrow> bool" where
  "is_schedule ts = (admissible [] ts \<and> list_all (\<lambda>t. t \<in> set ts) all_tasks)"

text \<open>
  An event of \<^verbatim>\<open>astream_events\<close> as far as \<^verbatim>\<open>main.py\<close> reads it: \<^verbatim>\<open>event["event"]\<close>,
  \<^verbatim>\<open>event["metadata"]["langgraph_node"]\<close> and \<^verbatim>\<open>event["data"]["output"]\<close>.
\<close>

datatype graph_event = Event string string dict

text \<open>Recording a result: the keys a task returns overwrite those of the state.\<close>

definition record_result :: "dict \<Rightarrow> dict \<Rightarrow> dict" where
  "record_result state out = out @ state"

text \<open>
  The tasks run in the given order on the state as it stands; each completion is an
  \<^verbatim>\<open>on_chain_end\<close> event of the task's node carrying what the task returned. The run
  of the graph as a whole ends with an \<^verbatim>\<open>on_chain_end\<close> event of no node.
\<close>

fun run_graph :: "env \<Rightarrow> task list \<Rightarrow> dict \<Rightarrow> graph_event list \<times> exn option" where
  "run_graph e [] state = ([Event ''on_chain_end'' [] state], None)"
| "run_graph e (t # ts) state =
     (case run_task t e state of
        Inl x \<Rightarrow> ([], Some x)
      | Inr out \<Rightarrow>
          (case run_graph e ts (record_result state out) of
             (evs, r) \<Rightarrow> (Event ''on_chain_end'' (node_name t) out # evs, r)))"

definition astream_events :: "env \<Rightarrow> task list \<Rightarrow> dict \<Rightarrow> graph_event list \<times> exn option" where
  "astream_events e ts state =
     (case run_graph e ts state of (evs, r) \<Rightarrow> (Event ''on_chain_start'' [] [] # evs, r))"

section \<open>The event stream\<close>

text \<open>\<^verbatim>\<open>backend/main.py: stream_agent_analysis\<close>. A message is the dict that is dumped
  into one \<^verbatim>\<open>data:\<close> frame.\<close>

definition default_criteria :: json where
  "default_criteria = JObj [(''weights'', JObj default_weights), (''strictness'', JStr ''medium'')]"

definition initial_state :: "json \<Rightarrow> json \<Rightarrow> dict" where
  "initial_state job_application hiring_criteria =
     [(''job_application'', job_application),
      (''hiring_criteria'', hiring_criteria),
      (''resume_score'', JObj []),
      (''cover_letter_score'', JObj []),
      (''jd_match_score'', JObj []),
      (''github_score'', JObj []),
      (''location_score'', JObj []),
      (''fairness_audit'', JObj []),
      (''final_verdict'', JObj [])]"

definition agent_display_names :: "(string \<times> string) list" where
  "agent_display_names =
     [(''resume_analyst'', ''Resume Analyst''),
      (''cover_letter_analyst'', ''Cover Letter Expert''),
      (''jd_match_analyst'', ''JD Match Manager''),
      (''github_analyst'', ''GitHub Analyst''),
      (''location_coordinator'', ''Location Coordinator''),
      (''fairness_auditor'', ''Fairness Auditor''),
      (''referee_agent'', ''Referee Agent'')]"

text \<open>Lines 122--136.\<close>

definition score_key_of :: "string \<Rightarrow> string option" where
  "score_key_of langgraph_node =
     (if langgraph_node = ''resume_analyst'' then Some ''resume_score''
      else if langgraph_node = ''cover_letter_analyst'' then Some ''cover_letter_score''
      else if langgraph_node = ''jd_match_analyst'' then Some ''jd_match_score''
      else if langgraph_node = ''github_analyst'' then Some ''github_score''
      else if langgraph_node = ''location_coordinator'' then Some ''location_score''
      else if langgraph_node = ''fairness_auditor'' then Some ''fairness_audit''
      else if langgraph_node = ''referee_agent'' then Some ''final_verdict''
      else None)"

definition verdict_message :: "string \<Rightarrow> json \<Rightarrow> json \<Rightarrow> json \<Rightarrow> json \<Rightarrow> dict" where
  "verdict_message agent_name thought verdict final_score agent_output =
     [(''agent'', JStr agent_name),
      (''message'', thought),
      (''status'', JStr ''complete''),
      (''type'', JStr ''verdict''),
      (''verdict'', verdict),
      (''final_score'', final_score),
      (''full_verdict'', agent_output)]"

definition agent_message :: "string \<Rightarrow> json \<Rightarrow> json \<Rightarrow> dict" where
  "agent_message agent_name thought score =
     [(''agent'', JStr agent_name),
      (''message'', thought),
      (''status'', JStr ''done''),
      (''type'', JStr ''analysis''),
      (''score'', score)]"

text \<open>Lines 104--169: the messages one event makes the generator yield, or the exception
  it raises.\<close>

definition emit :: "graph_event \<Rightarrow> exn + dict list" where
  "emit ev =
     (case ev of Event event_type langgraph_node out \<Rightarrow>
        if event_type = ''on_chain_end'' then
          (case (if langgraph_node \<noteq> [] then map_of agent_display_names langgraph_node else None) of
             None \<Rightarrow> Inr []
           | Some agent_name \<Rightarrow>
               (case score_key_of langgraph_node of
                  None \<Rightarrow> Inr []
                | Some score_key \<Rightarrow>
                    (case map_of out score_key of
                       None \<Rightarrow> Inr []
                     | Some agent_output \<Rightarrow>
                         and_then (py_get agent_output ''thought_process'' (JStr [])) (\<lambda>thought.
                           if langgraph_node = ''referee_agent'' then
                             and_then (py_get agent_output ''verdict'' (JStr ''UNKNOWN'')) (\<lambda>verdict.
                             and_then (py_get agent_output ''final_score'' (JNum 0)) (\<lambda>final_score.
                               Inr [verdict_message agent_name thought verdict final_score agent_output]))
                           else
                             and_then (py_get agent_output ''score'' (JNum 0)) (\<lambda>score.
                               Inr [agent_message agent_name thought score])))))
        else Inr [])"

text \<open>The body of the \<^verbatim>\<open>async for\<close>: the messages yielded, and the exception that ended
  the loop, if one did.\<close>

fun consume :: "graph_event list \<Rightarrow> dict list \<times> exn option" where
  "consume [] = ([], None)"
| "consume (ev # evs) =
     (case emit ev of
        Inl x \<Rightarrow> ([], Some x)
      | Inr ms \<Rightarrow> (case consume evs of (rest, r) \<Rightarrow> (ms @ rest, r)))"

definition completion_message :: dict where
  "completion_message =
     [(''agent'', JStr ''System''),
      (''message'', JStr ''All agents have completed analysis.''),
      (''status'', JStr ''complete''),
      (''type'', JStr ''system'')]"

definition error_message :: "exn \<Rightarrow> dict" where
  "error_message x =
     [(''agent'', JStr ''System''),
      (''message'', JStr (''Error during analysis: '' @ str x)),
      (''status'', JStr ''error''),
      (''type'', JStr ''error'')]"

text \<open>
  Lines 97--188, given what the iteration over the graph delivers: the events, and the
  exception that ended it, if one did. The events are consumed one by one; an exception
  raised by the graph or by the loop body ends the loop and is answered by the error
  message, a loop that ends normally by the completion message.
\<close>

definition stream_events :: "graph_event list \<times> exn option \<Rightarrow> dict list" where
  "stream_events delivered =
     (case delivered of
        (evs, graph_exn) \<Rightarrow>
          (case consume evs of
             (msgs, Some x) \<Rightarrow> msgs @ [error_message x]
           | (msgs, None) \<Rightarrow>
               (case graph_exn of
                  Some x \<Rightarrow> msgs @ [error_message x]
                | None \<Rightarrow> msgs @ [completion_message])))"

text \<open>The generator: the messages it yields, in order (lines 57--80 set up the state).\<close>

definition stream_agent_analysis :: "env \<Rightarrow> task list \<Rightarrow> json \<Rightarrow> json option \<Rightarrow> dict list" where
  "stream_agent_analysis e ts job_application hiring_criteria =
     (let criteria = (case hiring_criteria of None \<Rightarrow> default_criteria | Some c \<Rightarrow> c);
          state = initial_state job_application criteria
      in stream_events (astream_events e ts state))"

section \<open>Notions used in the statements\<close>

text \<open>The number a numeric value stands for (\<open>0\<close> for a value that is no number).\<close>

definition num :: "json \<Rightarrow> real" where
  "num v = (case as_num v of Inr x \<Rightarrow> x | Inl e \<Rightarrow> 0)"

text \<open>Lines 26--33: the weights the referee reads before it normalises them.\<close>

definition supplied_weights :: "dict \<Rightarrow> exn + json" where
  "supplied_weights state =
     py_get (dict_get state ''hiring_criteria'' (JObj [])) ''weights'' (JObj default_weights)"

section \<open>Concrete runs\<close>

text \<open>A backend that is down, and a backend whose reply parses to a given value.\<close>

definition env_down :: env where
  "env_down = \<lparr> api_key = Some ''key'', invoke = (\<lambda>task inputs. Inl (Exn BackendError ''down'')),
       loads = (\<lambda>s. None), today = ''2025-01-01'' \<rparr>"

definition env_reply :: "json \<Rightarrow> env" where
  "env_reply r = \<lparr> api_key = Some ''key'', invoke = (\<lambda>task inputs. Inr ''reply''),
       loads = (\<lambda>s. Some r), today = ''2025-01-01'' \<rparr>"

text \<open>
  The state the referee sees: the five Layer-1 results with the given scores, the hiring
  criteria and the audit.
\<close>

definition run_state :: "json \<Rightarrow> json \<Rightarrow> json \<Rightarrow> json \<Rightarrow> json \<Rightarrow> json \<Rightarrow> json \<Rightarrow> dict" where
  "run_state resume cover jd github location criteria audit =
     [(''job_application'', JObj []),
      (''hiring_criteria'', criteria),
      (''resume_score'', JObj [(''score'', resume)]),
      (''cover_letter_score'', JObj [(''score'', cover)]),
      (''jd_match_score'', JObj [(''score'', jd)]),
      (''github_score'', JObj [(''score'', github)]),
      (''location_score'', JObj [(''score'', location)]),
      (''fairness_audit'', audit),
      (''final_verdict'', JObj [])]"



text \<open>
  The scores of the scenarios of the specification (resume 80, cover letter 70, JD match
  90, GitHub 60, location 100) under given weights and a given total adjustment.
\<close>

definition scenario_state :: "dict \<Rightarrow> real \<Rightarrow> dict" where
  "scenario_state ws adj =
     run_state (JNum 80) (JNum 70) (JNum 90) (JNum 60) (JNum 100)
       (JObj [(''weights'', JObj ws), (''strictness'', JStr ''low'')])
       (JObj [(''total_adjustment'', JNum adj)])"

text \<open>
  The score of a task result as the task reported it: the \<open>score\<close> field of the result,
  and \<open>0\<close> when the field or the whole result is missing.
\<close>

definition reported_score :: "dict \<Rightarrow> string \<Rightarrow> json" where
  "reported_score state key =
     (case map_of state key of
        Some (JObj r) \<Rightarrow> (case map_of r ''score'' of Some s \<Rightarrow> s | None \<Rightarrow> JNum 0)
      | _ \<Rightarrow> JNum 0)"

text \<open>The inputs the referee hands to \<^verbatim>\<open>chain.invoke\<close>, when it gets that far.\<close>

definition referee_prompt :: "env \<Rightarrow> dict \<Rightarrow> exn + dict" where
  "referee_prompt e state = and_then (referee_prepare e state) (\<lambda>v. Inr (referee_inputs v))"

text \<open>
  A field of the verdict a run of the referee returns, read as lines 153--154 of
  \<^verbatim>\<open>main.py\<close> read it.
\<close>

definition verdict_field :: "exn + dict \<Rightarrow> string \<Rightarrow> json option" where
  "verdict_field out name =
     (case out of
        Inl x \<Rightarrow> None
      | Inr d \<Rightarrow> (case map_of d ''final_verdict'' of Some (JObj verdict) \<Rightarrow> map_of verdict name | _ \<Rightarrow> None))"


text \<open>The threshold table in the words of the specification (section 4.4, step 4).\<close>

definition spec_verdict :: "string \<Rightarrow> real \<Rightarrow> string" where
  "spec_verdict level score =
     (if level = ''high'' then
        (if score > 85 then ''SHORTLISTED'' else if score \<ge> 70 then ''MAYBE'' else ''REJECTED'')
      else if level = ''low'' then
        (if score > 60 then ''SHORTLISTED'' else if score \<ge> 45 then ''MAYBE'' else ''REJECTED'')
      else
        (if score > 75 then ''SHORTLISTED'' else if score \<ge> 60 then ''MAYBE'' else ''REJECTED''))"

definition overshoot_state :: dict where
  "overshoot_state =
     run_state (JNum 150) (JNum 0) (JNum 0) (JNum 0) (JNum 0)
       (JObj [(''weights'', JObj default_weights)]) (JObj [])"

definition strictness_state :: "string \<Rightarrow> dict" where
  "strictness_state level =
     run_state (JNum 80) (JNum 70) (JNum 90) (JNum 60) (JNum 100)
       (JObj [(''strictness'', JStr level)]) (JObj [])"


text \<open>A reply of the backend that parses and contradicts the threshold table.\<close>

definition odd_reply :: json where
  "odd_reply = JObj [(''final_score'', JNum 90), (''verdict'', JStr ''REJECTED'')]"

text \<open>A run in which the audit reported \<^verbatim>\<open>"total_adjustment": null\<close>.\<close>

definition null_adjustment_state :: dict where
  "null_adjustment_state =
     run_state (JNum 80) (JNum 70) (JNum 90) (JNum 60) (JNum 100)
       (JObj [(''weights'', JObj default_weights)])
       (JObj [(''total_adjustment'', JNull)])"

text \<open>A terminal event: the system's completion message or its error message.\<close>

definition is_terminal :: "dict \<Rightarrow> bool" where
  "is_terminal m = (map_of m ''type'' = Some (JStr ''system'') \<or> map_of m ''type'' = Some (JStr ''error''))"

text \<open>The display name \<^verbatim>\<open>main.py\<close> gives a task (lines 83--91), and the key of the state
  the task writes.\<close>

fun display_name :: "task \<Rightarrow> string" where
  "display_name Resume = ''Resume Analyst''"
| "display_name CoverLetter = ''Cover Letter Expert''"
| "display_name JdMatch = ''JD Match Manager''"
| "display_name Github = ''GitHub Analyst''"
| "display_name Location = ''Location Coordinator''"
| "display_name Fairness = ''Fairness Auditor''"
| "display_name Referee = ''Referee Agent''"

fun score_key :: "task \<Rightarrow> string" where
  "score_key Resume = ''resume_score''"
| "score_key CoverLetter = ''cover_letter_score''"
| "score_key JdMatch = ''jd_match_score''"
| "score_key Github = ''github_score''"
| "score_key Location = ''location_score''"
| "score_key Fairness = ''fairness_audit''"
| "score_key Referee = ''final_verdict''"

text \<open>A reply of the backend that every task accepts.\<close>

definition good_reply :: json where
  "good_reply = JObj [(''score'', JNum 70), (''thought_process'', JStr ''ok'')]"

text \<open>A completion order in which the location task is the last of its layer.\<close>

definition late_location :: "task list" where
  "late_location = [Github, Resume, JdMatch, CoverLetter, Location, Fairness, Referee]"

definition layer1 :: "task list" where
  "layer1 = [Resume, CoverLetter, JdMatch, Github, Location]"

definition sender :: "dict \<Rightarrow> json option" where
  "sender m = map_of m ''agent''"

definition kind :: "dict \<Rightarrow> json option" where
  "kind m = map_of m ''type''"

text \<open>
  The steps of a task before its \<^verbatim>\<open>try\<close> block, as the inputs they prepare for the
  backend.
\<close>

fun task_inputs :: "task \<Rightarrow> env \<Rightarrow> dict \<Rightarrow> exn + dict" where
  "task_inputs Resume e state = resume_inputs e state"
| "task_inputs CoverLetter e state = cover_letter_inputs e state"
| "task_inputs JdMatch e state = and_then (jd_match_inputs e state) (\<lambda>(inputs, required_skills). Inr inputs)"
| "task_inputs Github e state = and_then (github_inputs e state) (\<lambda>(inputs, repos). Inr inputs)"
| "task_inputs Location e state = location_inputs e state"
| "task_inputs Fairness e state = fairness_inputs e state"
| "task_inputs Referee e state = referee_prompt e state"

text \<open>
  What the handlers of two tasks compute on: the GitHub task's handlers take
  \<^verbatim>\<open>len(repos)\<close>, the referee's add the audit's total adjustment to a number.
\<close>

fun handler_ready :: "task \<Rightarrow> env \<Rightarrow> dict \<Rightarrow> bool" where
  "handler_ready Github e state =
     (case github_inputs e state of
        Inr (inputs, repos) \<Rightarrow> (case py_len repos of Inr n \<Rightarrow> True | Inl x \<Rightarrow> False)
      | Inl x \<Rightarrow> False)"
| "handler_ready Referee e state =
     (case referee_prepare e state of
        Inr v \<Rightarrow> (case as_num (total_fairness_adjustment v) of Inr a \<Rightarrow> True | Inl x \<Rightarrow> False)
      | Inl x \<Rightarrow> False)"
| "handler_ready t e state = True"

text \<open>The numeric field of a task's result, and the neutral value the fallback of an
  analyst or of the auditor gives it.\<close>

fun score_field :: "task \<Rightarrow> string" where
  "score_field Fairness = ''total_adjustment''"
| "score_field Referee = ''final_score''"
| "score_field t = ''score''"

fun neutral_score :: "task \<Rightarrow> real" where
  "neutral_score Location = 50"
| "neutral_score t = 0"

text \<open>A field of the result a run of a task returns under the task's key.\<close>

definition task_field :: "task \<Rightarrow> exn + dict \<Rightarrow> string \<Rightarrow> json option" where
  "task_field t out name =
     (case out of
        Inl x \<Rightarrow> None
      | Inr d \<Rightarrow> (case map_of d (score_key t) of Some (JObj result) \<Rightarrow> map_of result name | _ \<Rightarrow> None))"

text \<open>An environment in which \<^verbatim>\<open>GROQ_API_KEY\<close> is not set.\<close>

definition env_no_key :: env where
  "env_no_key = \<lparr> api_key = None, invoke = (\<lambda>task inputs. Inr ''reply''),
       loads = (\<lambda>s. Some good_reply), today = ''2025-01-01'' \<rparr>"

text \<open>A job application whose \<open>resume\<close> entry is the text itself, not a dict.\<close>

definition misfiled_resume :: dict where
  "misfiled_resume = initial_state (JObj [(''resume'', JStr ''ten years of Haskell'')]) default_criteria"

section \<open>Basic facts\<close>

lemma and_then_Inl [simp]: "and_then (Inl x) f = Inl x"
  by (simp add: and_then_def)

lemma and_then_Inr [simp]: "and_then (Inr v) f = f v"
  by (simp add: and_then_def)

lemma and_then_eq_Inr: "and_then r f = Inr v \<longleftrightarrow> (\<exists>x. r = Inr x \<and> f x = Inr v)"
  by (cases r) simp_all

lemmas referee_defs = referee_agent_def referee_prepare_def referee_decide_def try_backend_def
  ask_backend_def referee_on_error_def referee_on_decode_def referee_fallback_def referee_inputs_def
  initialize_llm_def score_of_def dict_get_def dict_index_def normalize_weights_def py_sum_def
  weighted_def py_mul_def default_weights_def

lemma referee_prepareD:
  assumes "referee_prepare e state = Inr v"
  shows "initialize_llm e = Inr ()"
    and "score_of state ''resume_score'' = Inr (resume_score v)"
    and "score_of state ''cover_letter_score'' = Inr (cover_letter_score v)"
    and "score_of state ''jd_match_score'' = Inr (jd_match_score v)"
    and "score_of state ''github_score'' = Inr (github_score v)"
    and "score_of state ''location_score'' = Inr (location_score v)"
    and "\<exists>w0. supplied_weights state = Inr w0 \<and> normalize_weights w0 = Inr (weights v)"
    and "py_get (dict_get state ''hiring_criteria'' (JObj [])) ''strictness'' (JStr ''medium'') = Inr (strictness v)"
    and "fairness_audit v = dict_get state ''fairness_audit'' (JObj [])"
    and "py_get (fairness_audit v) ''total_adjustment'' (JNum 0) = Inr (total_fairness_adjustment v)"
    and "weighted (jd_match_score v) (weights v) ''jd_match'' 0.3 = Inr (jd_match_weighted v)"
    and "weighted (github_score v) (weights v) ''github'' 0.2 = Inr (github_weighted v)"
    and "weighted (resume_score v) (weights v) ''resume'' 0.2 = Inr (resume_weighted v)"
    and "weighted (cover_letter_score v) (weights v) ''cover_letter'' 0.15 = Inr (cover_letter_weighted v)"
    and "weighted (location_score v) (weights v) ''location'' 0.15 = Inr (location_weighted v)"
    and "weighted_before_fairness v =
           jd_match_weighted v + github_weighted v + resume_weighted v
           + cover_letter_weighted v + location_weighted v"
  using assms unfolding referee_prepare_def Let_def and_then_eq_Inr supplied_weights_def
  by auto

lemma as_num_num: "as_num v = Inr x \<Longrightarrow> num v = x"
  by (simp add: num_def)

lemma weighted_eq: "weighted s ws name d = Inr x \<Longrightarrow> x = num s * num (dict_get ws name (JNum d))"
  by (auto simp: weighted_def py_mul_def and_then_eq_Inr as_num_num)





lemmas run_defs = referee_defs supplied_weights_def env_down_def env_reply_def run_state_def


section \<open>Weights\<close>






section \<open>Scores and strictness as the referee reads them\<close>

lemma score_of_reported: "score_of state key = Inr x \<Longrightarrow> x = reported_score state key"
  by (auto simp: score_of_def reported_score_def dict_get_def split: json.splits option.splits)

text \<open>
  C7 (as amended). The referee takes the \<open>score\<close> field of each of the five task results
  as the task reported it, without clamping it, and reads a missing field or a missing
  result as \<open>0\<close>; the weighted sum is formed from these values.
\<close>

theorem score_taken_as_reported:
  assumes prep: "referee_prepare e state = Inr v"
  shows "resume_score v = reported_score state ''resume_score''
       \<and> cover_letter_score v = reported_score state ''cover_letter_score''
       \<and> jd_match_score v = reported_score state ''jd_match_score''
       \<and> github_score v = reported_score state ''github_score''
       \<and> location_score v = reported_score state ''location_score''
       \<and> weighted_before_fairness v =
             num (reported_score state ''jd_match_score'') * num (dict_get (weights v) ''jd_match'' (JNum 0.3))
           + num (reported_score state ''github_score'') * num (dict_get (weights v) ''github'' (JNum 0.2))
           + num (reported_score state ''resume_score'') * num (dict_get (weights v) ''resume'' (JNum 0.2))
           + num (reported_score state ''cover_letter_score'') * num (dict_get (weights v) ''cover_letter'' (JNum 0.15))
           + num (reported_score state ''location_score'') * num (dict_get (weights v) ''location'' (JNum 0.15))"
proof -
  note s = referee_prepareD(2-6) [OF prep, THEN score_of_reported]
  note ws = referee_prepareD(11-15) [OF prep, THEN weighted_eq]
  show ?thesis
    unfolding referee_prepareD(16) [OF prep] ws using s by simp
qed



theorem score_taken_as_reported_witness:
  "(case referee_prepare env_down overshoot_state of
      Inl x \<Rightarrow> False
    | Inr v \<Rightarrow> resume_score v = JNum 150 \<and> location_score v = JNum 0)"
proof -
  obtain v where prep: "referee_prepare env_down overshoot_state = Inr v"
    by (simp add: run_defs overshoot_state_def)
  have "reported_score overshoot_state ''resume_score'' = JNum 150"
    "reported_score overshoot_state ''location_score'' = JNum 0"
    by (simp_all add: reported_score_def overshoot_state_def run_state_def)
  with score_taken_as_reported [OF prep] prep show ?thesis
    by simp
qed

text \<open>
  Against C7 as stated: a resume score of 150 is neither clamped to 100 nor read as 0, it
  contributes \<open>0.2 * 150 = 30\<close>, and the only concern of the verdict is the backend's
  failure.
\<close>

theorem score_not_clamped:
  "referee_agent env_down overshoot_state =
     Inr [(''final_verdict'', JObj
       [(''final_score'', JNum 30),
        (''verdict'', JStr ''MAYBE''),
        (''weighted_scores'', JObj
           [(''jd_match_weighted'', JNum 0), (''github_weighted'', JNum 0),
            (''resume_weighted'', JNum 30), (''cover_letter_weighted'', JNum 0),
            (''location_weighted'', JNum 0)]),
        (''fairness_adjustment_applied'', JNum 0),
        (''decision_reasoning'', JStr ''Error: down''),
        (''key_strengths'', JArr []),
        (''key_concerns'', JArr [JStr ''Error: down'']),
        (''next_steps'', JStr ''Please review the error and rerun analysis.''),
        (''thought_process'', JStr ''I encountered an error while applying custom weights: down'')])]"
  by (simp add: run_defs overshoot_state_def)

lemma referee_prompt_strictness:
  "referee_prompt e state = Inr p \<Longrightarrow>
     \<exists>v. referee_prepare e state = Inr v \<and> map_of p ''strictness'' = Some (strictness v)"
  by (auto simp: referee_prompt_def and_then_eq_Inr referee_inputs_def)

text \<open>
  C8 (as amended). A hiring criteria without a \<open>strictness\<close> entry is read as
  \<open>medium\<close>; a supplied value, recognised or not, reaches the backend unchanged.
\<close>

theorem strictness_passed_as_supplied:
  assumes prompt: "referee_prompt e state = Inr p"
    and hc: "dict_get state ''hiring_criteria'' (JObj []) = JObj hc"
  shows "map_of p ''strictness'' =
           Some (case map_of hc ''strictness'' of None \<Rightarrow> JStr ''medium'' | Some s \<Rightarrow> s)"
proof -
  from referee_prompt_strictness [OF prompt] obtain v
    where prep: "referee_prepare e state = Inr v" and p: "map_of p ''strictness'' = Some (strictness v)"
    by blast
  from referee_prepareD(8) [OF prep] hc
  have "strictness v = (case map_of hc ''strictness'' of None \<Rightarrow> JStr ''medium'' | Some s \<Rightarrow> s)"
    by (simp add: dict_get_def)
  with p show ?thesis by simp
qed

theorem strictness_passed_as_supplied_witness:
  "(case referee_prompt env_down (strictness_state ''high'') of
      Inl x \<Rightarrow> False
    | Inr p \<Rightarrow> map_of p ''strictness'' = Some (JStr ''high''))"
proof -
  obtain p where prompt: "referee_prompt env_down (strictness_state ''high'') = Inr p"
    by (simp add: referee_prompt_def run_defs strictness_state_def)
  have hc: "dict_get (strictness_state ''high'') ''hiring_criteria'' (JObj [])
              = JObj [(''strictness'', JStr ''high'')]"
    by (simp add: dict_get_def strictness_state_def run_state_def)
  from strictness_passed_as_supplied [OF prompt hc] prompt show ?thesis
    by simp
qed

text \<open>Against C8 as stated: the level \<open>extreme\<close> is not replaced by \<open>medium\<close>.\<close>

theorem unrecognized_strictness_kept:
  "referee_prompt env_down (strictness_state ''extreme'') =
     Inr [(''candidate_name'', JStr ''Unknown''),
          (''company_name'', JStr ''Unknown''),
          (''job_role'', JStr ''Unknown''),
          (''weights_str'', JObj
             [(''resume'', JNum (1 / 5)), (''cover_letter'', JNum (3 / 20)),
              (''jd_match'', JNum (3 / 10)), (''github'', JNum (1 / 5)),
              (''location'', JNum (3 / 20))]),
          (''jd_match_score'', JNum 90), (''github_score'', JNum 60),
          (''resume_score'', JNum 80), (''cover_letter_score'', JNum 70),
          (''location_score'', JNum 100), (''fairness_adjustment'', JNum 0),
          (''bias_detected'', JBool False), (''fairness_details'', JObj []),
          (''strictness'', JStr ''extreme'')]"
  by (simp add: referee_prompt_def run_defs strictness_state_def)

section \<open>The verdict of the referee\<close>



lemma referee_agent_prepared:
  "referee_prepare e state = Inr v \<Longrightarrow> referee_agent e state = referee_decide e v"
  by (simp add: referee_agent_def)

lemma referee_decide_reply:
  "ask_backend e ''referee_agent'' (referee_inputs v) = Inr r \<Longrightarrow>
     referee_decide e v = Inr [(''final_verdict'', r)]"
  by (simp add: referee_decide_def try_backend_def)

lemma referee_decide_failure:
  assumes "ask_backend e ''referee_agent'' (referee_inputs v) = Inl x"
    and "as_num (total_fairness_adjustment v) = Inr a"
  shows "verdict_field (referee_decide e v) ''final_score'' = Some (JNum (weighted_before_fairness v + a))"
    and "verdict_field (referee_decide e v) ''verdict'' = Some (JStr ''MAYBE'')"
    and "verdict_field (referee_decide e v) ''key_concerns'' =
           Some (JArr [JStr (if cls x = JSONDecodeError then ''Data format error in analysis''
                             else ''Error: '' @ str x)])"
  using assms
  by (simp_all add: referee_decide_def try_backend_def referee_on_decode_def referee_on_error_def
      referee_fallback_def verdict_field_def)







text \<open>
  C6 (as amended). When the backend call raises or its reply is not JSON, and the audit's
  total adjustment is a number, the referee returns a verdict whose \<open>final_score\<close> is
  the weighted pre-fairness score plus the total adjustment, whose label is \<open>MAYBE\<close>
  and which records one concern.
\<close>

theorem fallback_verdict:
  assumes prep: "referee_prepare e state = Inr v"
    and fail: "ask_backend e ''referee_agent'' (referee_inputs v) = Inl x"
    and adj: "as_num (total_fairness_adjustment v) = Inr a"
  shows "verdict_field (referee_agent e state) ''final_score''
           = Some (JNum (weighted_before_fairness v + a))
       \<and> verdict_field (referee_agent e state) ''verdict'' = Some (JStr ''MAYBE'')
       \<and> verdict_field (referee_agent e state) ''key_concerns''
           = Some (JArr [JStr (if cls x = JSONDecodeError then ''Data format error in analysis''
                               else ''Error: '' @ str x)])"
  using referee_decide_failure [OF fail adj]
  by (simp add: referee_agent_prepared [OF prep])

theorem fallback_verdict_witness:
  "verdict_field (referee_agent env_down (scenario_state default_weights (- 20))) ''final_score''
     = Some (JNum 60.5)
   \<and> verdict_field (referee_agent env_down (scenario_state default_weights (- 20))) ''verdict''
     = Some (JStr ''MAYBE'')
   \<and> verdict_field (referee_agent env_down (scenario_state default_weights (- 20))) ''key_concerns''
     = Some (JArr [JStr ''Error: down''])"
proof -
  let ?st = "scenario_state default_weights (- 20)"
  obtain v where prep: "referee_prepare env_down ?st = Inr v"
    and wbf: "weighted_before_fairness v = 80.5"
    and tfa: "total_fairness_adjustment v = JNum (- 20)"
    by (simp add: run_defs scenario_state_def)
  have fail: "ask_backend env_down ''referee_agent'' (referee_inputs v) = Inl (Exn BackendError ''down'')"
    by (simp add: ask_backend_def env_down_def)
  from tfa have adj: "as_num (total_fairness_adjustment v) = Inr (- 20)"
    by simp
  from fallback_verdict [OF prep fail adj] wbf show ?thesis
    by simp
qed

text \<open>
  Against C6 as stated: a reply that parses to a value that is no verdict is returned as
  it is, without score, label or concern; and with the backend down and an audit whose
  total adjustment is \<open>null\<close> the handler itself raises, so the referee returns nothing.
\<close>

theorem verdict_missing:
  "referee_agent (env_reply (JObj [])) (scenario_state default_weights 0)
     = Inr [(''final_verdict'', JObj [])]
   \<and> referee_agent env_down null_adjustment_state
     = Inl (Exn TypeError ''unsupported operand type(s)'')"
  by (simp add: run_defs scenario_state_def null_adjustment_state_def)

text \<open>
  C2 (as amended). The program does not compute the label from \<open>final_score\<close> and the
  strictness: when the reply of the backend parses, the verdict, label included, is the
  parsed reply as it is; on the fallback paths the label is \<open>MAYBE\<close> whatever the
  score and the strictness are.
\<close>

theorem verdict_label_source:
  assumes prep: "referee_prepare e state = Inr v"
  shows "(\<forall>r. ask_backend e ''referee_agent'' (referee_inputs v) = Inr r \<longrightarrow>
            referee_agent e state = Inr [(''final_verdict'', r)])
       \<and> (\<forall>x a. ask_backend e ''referee_agent'' (referee_inputs v) = Inl x \<longrightarrow>
            as_num (total_fairness_adjustment v) = Inr a \<longrightarrow>
            verdict_field (referee_agent e state) ''verdict'' = Some (JStr ''MAYBE''))"
  using referee_decide_reply referee_decide_failure(2)
  by (simp add: referee_agent_prepared [OF prep])

theorem verdict_label_source_witness:
  "referee_agent (env_reply odd_reply) (scenario_state default_weights 0)
     = Inr [(''final_verdict'', odd_reply)]
   \<and> verdict_field (referee_agent env_down (scenario_state default_weights 0)) ''verdict''
     = Some (JStr ''MAYBE'')"
proof -
  let ?st = "scenario_state default_weights 0"
  obtain v where prep: "referee_prepare (env_reply odd_reply) ?st = Inr v"
    by (simp add: run_defs scenario_state_def)
  have reply: "ask_backend (env_reply odd_reply) ''referee_agent'' (referee_inputs v) = Inr odd_reply"
    by (simp add: ask_backend_def env_reply_def)
  obtain u where prep': "referee_prepare env_down ?st = Inr u"
    and tfa: "total_fairness_adjustment u = JNum 0"
    by (simp add: run_defs scenario_state_def)
  have fail: "ask_backend env_down ''referee_agent'' (referee_inputs u) = Inl (Exn BackendError ''down'')"
    by (simp add: ask_backend_def env_down_def)
  from tfa have adj: "as_num (total_fairness_adjustment u) = Inr 0"
    by simp
  from verdict_label_source [OF prep] reply verdict_label_source [OF prep'] fail adj
  show ?thesis by blast
qed

text \<open>
  Against C2 as stated: under strictness \<open>low\<close> the fallback verdict has score 80.5 and
  label \<open>MAYBE\<close>, and a parsed reply with score 90 and label \<open>REJECTED\<close> is returned
  unchanged; the table gives \<open>SHORTLISTED\<close> for both.
\<close>

theorem verdict_label_off_table:
  "verdict_field (referee_agent env_down (scenario_state default_weights 0)) ''final_score''
     = Some (JNum 80.5)
   \<and> verdict_field (referee_agent env_down (scenario_state default_weights 0)) ''verdict''
     = Some (JStr ''MAYBE'')
   \<and> spec_verdict ''low'' 80.5 = ''SHORTLISTED''
   \<and> verdict_field (referee_agent (env_reply odd_reply) (scenario_state default_weights 0)) ''final_score''
     = Some (JNum 90)
   \<and> verdict_field (referee_agent (env_reply odd_reply) (scenario_state default_weights 0)) ''verdict''
     = Some (JStr ''REJECTED'')
   \<and> spec_verdict ''low'' 90 = ''SHORTLISTED''"
  by (simp add: run_defs scenario_state_def odd_reply_def verdict_field_def spec_verdict_def)

section \<open>The event stream\<close>

lemma emit_no_terminal: "emit ev = Inr ms \<Longrightarrow> filter is_terminal ms = []"
  by (auto simp: emit_def and_then_eq_Inr verdict_message_def agent_message_def is_terminal_def
      split: graph_event.splits option.splits if_splits)

lemma consume_no_terminal: "consume evs = (msgs, r) \<Longrightarrow> filter is_terminal msgs = []"
proof (induction evs arbitrary: msgs r)
  case Nil
  then show ?case by simp
next
  case (Cons ev evs)
  show ?case
  proof (cases "emit ev")
    case (Inl x)
    with Cons.prems show ?thesis by simp
  next
    case (Inr ms)
    obtain rest r' where c: "consume evs = (rest, r')" by (cases "consume evs")
    with Cons.prems Inr have "msgs = ms @ rest" by simp
    with emit_no_terminal [OF Inr] Cons.IH [OF c] show ?thesis by simp
  qed
qed

lemma stream_events_cases:
  obtains msgs x where "stream_events (evs, g) = msgs @ [error_message x]"
      "filter is_terminal msgs = []"
  | msgs where "stream_events (evs, g) = msgs @ [completion_message]"
      "filter is_terminal msgs = []" "g = None" "consume evs = (msgs, None)"
proof -
  obtain msgs r where c: "consume evs = (msgs, r)" by (cases "consume evs")
  note nt = consume_no_terminal [OF c]
  show thesis
  proof (cases r)
    case (Some x)
    with c have "stream_events (evs, g) = msgs @ [error_message x]"
      by (simp add: stream_events_def)
    with nt that(1) show ?thesis by blast
  next
    case None
    show ?thesis
    proof (cases g)
      case (Some x)
      with c None have "stream_events (evs, g) = msgs @ [error_message x]"
        by (simp add: stream_events_def)
      with nt that(1) show ?thesis by blast
    next
      case gNone: None
      with c None have "stream_events (evs, g) = msgs @ [completion_message]"
        by (simp add: stream_events_def)
      with nt that(2) c None gNone show ?thesis by blast
    qed
  qed
qed


lemma try_backend_shape:
  "try_backend e task inputs key d h = Inr out \<Longrightarrow> \<exists>r. out = [(key, r)]"
  by (auto simp: try_backend_def and_then_eq_Inr split: sum.splits)

lemma run_task_shape: "run_task t e state = Inr out \<Longrightarrow> \<exists>r. out = [(score_key t, r)]"
  by (cases t)
    (auto simp: resume_analyst_def cover_letter_analyst_def jd_match_analyst_def github_analyst_def
      location_coordinator_def fairness_auditor_def referee_agent_def referee_decide_def
      and_then_eq_Inr dest: try_backend_shape)

lemma display_name_lookup: "map_of agent_display_names (node_name t) = Some (display_name t)"
  by (cases t) (simp_all add: agent_display_names_def)

lemma score_key_lookup: "score_key_of (node_name t) = Some (score_key t)"
  by (cases t) (simp_all add: score_key_of_def)

lemma node_name_nonempty: "node_name t \<noteq> []"
  by (cases t) simp_all

lemma node_name_referee: "node_name t = ''referee_agent'' \<longleftrightarrow> t = Referee"
  by (cases t) simp_all

lemma emit_task:
  assumes "emit (Event ''on_chain_end'' (node_name t) [(score_key t, r)]) = Inr ms"
  shows "\<exists>m. ms = [m] \<and> sender m = Some (JStr (display_name t))
           \<and> kind m = Some (JStr (if t = Referee then ''verdict'' else ''analysis''))"
  using assms
  by (auto simp: emit_def display_name_lookup score_key_lookup node_name_nonempty node_name_referee
      and_then_eq_Inr verdict_message_def agent_message_def sender_def kind_def split: if_splits)

lemma emit_graph_end: "emit (Event ''on_chain_end'' [] state) = Inr []"
  by (simp add: emit_def)

lemma emit_graph_start: "emit (Event ''on_chain_start'' n out) = Inr []"
  by (simp add: emit_def)

lemma run_graph_messages:
  assumes "run_graph e ts state = (evs, None)" and "consume evs = (msgs, None)"
  shows "map sender msgs = map (\<lambda>t. Some (JStr (display_name t))) ts
       \<and> map kind msgs = map (\<lambda>t. Some (JStr (if t = Referee then ''verdict'' else ''analysis''))) ts"
  using assms
proof (induction ts arbitrary: state evs msgs)
  case Nil
  then show ?case by (auto simp: emit_graph_end)
next
  case (Cons t ts)
  from Cons.prems(1) obtain out where out: "run_task t e state = Inr out"
    by (cases "run_task t e state") auto
  obtain evs' g where rg: "run_graph e ts (record_result state out) = (evs', g)"
    by (cases "run_graph e ts (record_result state out)")
  with Cons.prems(1) out have evs: "evs = Event ''on_chain_end'' (node_name t) out # evs'" and g: "g = None"
    by simp_all
  from run_task_shape [OF out] obtain r where r: "out = [(score_key t, r)]" by blast
  from Cons.prems(2) evs obtain ms where ms: "emit (Event ''on_chain_end'' (node_name t) out) = Inr ms"
    by (cases "emit (Event ''on_chain_end'' (node_name t) out)") auto
  obtain rest q where c: "consume evs' = (rest, q)" by (cases "consume evs'")
  with Cons.prems(2) evs ms have msgs: "msgs = ms @ rest" and q: "q = None"
    by simp_all
  from emit_task [OF ms [unfolded r]] obtain m where m: "ms = [m]"
    "sender m = Some (JStr (display_name t))"
    "kind m = Some (JStr (if t = Referee then ''verdict'' else ''analysis''))"
    by blast
  from Cons.IH [OF rg [unfolded g] c [unfolded q]] msgs m show ?case
    by simp
qed

lemma admissible_split:
  "admissible fin (a @ t # b) \<Longrightarrow> set (deps t) \<subseteq> set fin \<union> set a"
proof (induction a arbitrary: fin)
  case Nil
  then show ?case by (auto simp: list_all_iff)
next
  case (Cons u a)
  from Cons.prems have "admissible (u # fin) (a @ t # b)" by simp
  from Cons.IH [OF this] show ?case by auto
qed

lemma admissible_distinct: "admissible fin ts \<Longrightarrow> distinct ts \<and> set ts \<inter> set fin = {}"
proof (induction ts arbitrary: fin)
  case Nil
  then show ?case by simp
next
  case (Cons u ts)
  from Cons.prems have u: "u \<notin> set fin" and "admissible (u # fin) ts" by simp_all
  from Cons.IH [OF this(2)] u show ?case by auto
qed

lemma deps_Referee: "deps Referee = [Fairness]"
  by (simp add: deps_def edges_def)

lemma deps_Fairness: "deps Fairness = layer1"
  by (simp add: deps_def edges_def layer1_def)

lemma task_cases7:
  "t = Resume \<or> t = CoverLetter \<or> t = JdMatch \<or> t = Github \<or> t = Location \<or> t = Fairness \<or> t = Referee"
  by (cases t) simp_all

lemma schedule_shape:
  assumes "is_schedule ts"
  shows "\<exists>l1. ts = l1 @ [Fairness, Referee] \<and> set l1 = set layer1 \<and> length l1 = 5"
proof -
  from assms have adm: "admissible [] ts" and "Referee \<in> set ts"
    by (simp_all add: is_schedule_def all_tasks_def)
  then obtain a b where ts: "ts = a @ Referee # b" by (meson split_list)
  from admissible_split [of "[]" a Referee b] adm ts have "Fairness \<in> set a"
    by (simp add: deps_Referee)
  then obtain a1 a2 where a: "a = a1 @ Fairness # a2" by (meson split_list)
  from admissible_split [of "[]" a1 Fairness "a2 @ Referee # b"] adm ts a
  have sub: "set layer1 \<subseteq> set a1" by (simp add: deps_Fairness)
  from admissible_distinct [OF adm] ts a
  have dist: "distinct (a1 @ Fairness # a2 @ Referee # b)" by simp
  have a1: "set a1 = set layer1"
  proof
    show "set a1 \<subseteq> set layer1"
    proof
      fix t assume t: "t \<in> set a1"
      with dist have "t \<noteq> Fairness" "t \<noteq> Referee" by auto
      with task_cases7 [of t] show "t \<in> set layer1" by (auto simp: layer1_def)
    qed
  qed (rule sub)
  have a2: "a2 = []"
  proof (rule ccontr)
    assume "a2 \<noteq> []"
    then obtain t where t: "t \<in> set a2" by (cases a2) auto
    with dist have "t \<notin> set a1" "t \<noteq> Fairness" "t \<noteq> Referee" by auto
    with a1 task_cases7 [of t] show False by (auto simp: layer1_def)
  qed
  have b: "b = []"
  proof (rule ccontr)
    assume "b \<noteq> []"
    then obtain t where t: "t \<in> set b" by (cases b) auto
    with dist have "t \<notin> set a1" "t \<noteq> Fairness" "t \<noteq> Referee" by auto
    with a1 task_cases7 [of t] show False by (auto simp: layer1_def)
  qed
  from dist have "distinct a1" by simp
  then have "length a1 = card (set a1)" by (simp add: distinct_card)
  also have "\<dots> = 5" by (simp add: a1 layer1_def)
  finally have "length a1 = 5" .
  with ts a a2 b a1 show ?thesis by simp
qed


lemma error_not_completion: "error_message x \<noteq> completion_message"
  by (simp add: error_message_def completion_message_def)

lemmas task_defs = resume_analyst_def resume_inputs_def cover_letter_analyst_def
  cover_letter_inputs_def jd_match_analyst_def jd_match_inputs_def github_analyst_def
  github_inputs_def location_coordinator_def location_inputs_def fairness_auditor_def
  fairness_inputs_def get2_def skills_str_def

lemmas stream_defs = stream_agent_analysis_def stream_events_def astream_events_def initial_state_def
  default_criteria_def record_result_def emit_def score_key_of_def agent_display_names_def
  agent_message_def verdict_message_def task_defs run_defs Let_def

text \<open>
  C4. On a run in which every task completes and that ends with the completion message,
  the stream has 8 messages: one per task, in completion order, the five Layer-1 tasks
  first, then the fairness audit, then the verdict, and last the completion message.
\<close>

theorem successful_run_events:
  assumes sched: "is_schedule ts"
    and ok: "last (stream_agent_analysis e ts ja hc) = completion_message"
  shows "length (stream_agent_analysis e ts ja hc) = 8
       \<and> map sender (stream_agent_analysis e ts ja hc)
           = map (\<lambda>t. Some (JStr (display_name t))) ts @ [Some (JStr ''System'')]
       \<and> map kind (stream_agent_analysis e ts ja hc)
           = replicate 6 (Some (JStr ''analysis'')) @ [Some (JStr ''verdict''), Some (JStr ''system'')]
       \<and> set (take 5 ts) = set layer1
       \<and> drop 5 ts = [Fairness, Referee]"
proof -
  let ?st = "initial_state ja (case hc of None \<Rightarrow> default_criteria | Some c \<Rightarrow> c)"
  obtain evs' g where rg: "run_graph e ts ?st = (evs', g)" by (cases "run_graph e ts ?st")
  let ?evs = "Event ''on_chain_start'' [] [] # evs'"
  from rg have stream: "stream_agent_analysis e ts ja hc = stream_events (?evs, g)"
    by (simp add: stream_agent_analysis_def astream_events_def)
  from ok obtain msgs where s: "stream_events (?evs, g) = msgs @ [completion_message]"
    and g: "g = None" and cons: "consume ?evs = (msgs, None)"
    unfolding stream
    by (cases rule: stream_events_cases [of ?evs g]) (auto simp: error_not_completion)
  obtain rest q where c: "consume evs' = (rest, q)" by (cases "consume evs'")
  with cons have "rest = msgs" "q = None"
    by (simp_all add: emit_graph_start)
  with c have c': "consume evs' = (msgs, None)" by simp
  note maps = run_graph_messages [OF rg [unfolded g] c']
  from schedule_shape [OF sched] obtain l1
    where ts: "ts = l1 @ [Fairness, Referee]" and l1: "set l1 = set layer1" and len: "length l1 = 5"
    by blast
  from l1 have "\<forall>t \<in> set l1. t \<noteq> Referee" by (auto simp: layer1_def)
  then have kinds: "map (\<lambda>t. Some (JStr (if t = Referee then ''verdict'' else ''analysis''))) l1
      = replicate 5 (Some (JStr ''analysis''))"
    using len by (simp add: map_replicate_const cong: map_cong)
  from maps have "length msgs = length ts" by (metis length_map)
  with ts len have n: "length msgs = 7" by simp
  have k: "kind completion_message = Some (JStr ''system'')" "sender completion_message = Some (JStr ''System'')"
    by (simp_all add: kind_def sender_def completion_message_def)
  have r6: "replicate 6 (Some (JStr ''analysis'')) = replicate 5 (Some (JStr ''analysis'')) @ [Some (JStr ''analysis'')]"
    by (simp add: numeral_eq_Suc)
  show ?thesis
    unfolding stream s using maps n k ts l1 len kinds r6 by simp
qed

theorem successful_run_events_witness:
  "length (stream_agent_analysis (env_reply good_reply) late_location (JObj []) None) = 8
   \<and> map sender (stream_agent_analysis (env_reply good_reply) late_location (JObj []) None)
     = [Some (JStr ''GitHub Analyst''), Some (JStr ''Resume Analyst''),
        Some (JStr ''JD Match Manager''), Some (JStr ''Cover Letter Expert''),
        Some (JStr ''Location Coordinator''), Some (JStr ''Fairness Auditor''),
        Some (JStr ''Referee Agent''), Some (JStr ''System'')]"
proof -
  have sched: "is_schedule late_location"
    by (simp add: is_schedule_def late_location_def all_tasks_def deps_def edges_def)
  have ok: "last (stream_agent_analysis (env_reply good_reply) late_location (JObj []) None)
      = completion_message"
    by (simp add: stream_defs late_location_def good_reply_def)
  from successful_run_events [OF sched ok] show ?thesis
    by (simp add: late_location_def)
qed

section \<open>Failures inside and outside a task's try block\<close>

lemma try_backend_failure:
  "ask_backend e task inputs = Inl x \<Longrightarrow>
     try_backend e task inputs key d h
       = and_then (if cls x = JSONDecodeError then d else h x) (\<lambda>fallback. Inr [(key, fallback)])"
  by (simp add: try_backend_def)

lemma try_backend_reply:
  "ask_backend e task inputs = Inr r \<Longrightarrow> try_backend e task inputs key d h = Inr [(key, r)]"
  by (simp add: try_backend_def)

lemma layer1_fallback:
  assumes run: "run = try_backend e task inputs (score_key t) (Inr (JObj d)) (\<lambda>x. Inr (JObj (h x)))"
    and d: "map_of d (score_field t) = Some (JNum n)" "\<exists>why. map_of d ''thought_process'' = Some (JStr why)"
    and h: "\<And>x. map_of (h x) (score_field t) = Some (JNum n)"
      "\<And>x. \<exists>why. map_of (h x) ''thought_process'' = Some (JStr why)"
  shows "(\<exists>r. run = Inr [(score_key t, r)])
       \<and> (\<forall>x. ask_backend e task inputs = Inl x \<longrightarrow>
             task_field t run (score_field t) = Some (JNum n)
           \<and> (\<exists>why. task_field t run ''thought_process'' = Some (JStr why)))"
proof (cases "ask_backend e task inputs")
  case (Inl x)
  then show ?thesis
    unfolding run using d h [of x]
    by (auto simp: try_backend_failure task_field_def)
next
  case (Inr r)
  then show ?thesis
    unfolding run by (simp add: try_backend_reply)
qed

lemma resume_total:
  assumes "task_inputs Resume e state = Inr inputs"
  shows "(\<exists>r. run_task Resume e state = Inr [(score_key Resume, r)])
       \<and> (\<forall>x. ask_backend e (node_name Resume) inputs = Inl x \<longrightarrow>
             task_field Resume (run_task Resume e state) (score_field Resume) = Some (JNum 0)
           \<and> (\<exists>why. task_field Resume (run_task Resume e state) ''thought_process'' = Some (JStr why)))"
  by (rule layer1_fallback [where n = 0], simp add: resume_analyst_def assms [simplified] resume_fallback_def)
    simp_all


lemma cover_letter_total:
  assumes "task_inputs CoverLetter e state = Inr inputs"
  shows "(\<exists>r. run_task CoverLetter e state = Inr [(score_key CoverLetter, r)])
       \<and> (\<forall>x. ask_backend e (node_name CoverLetter) inputs = Inl x \<longrightarrow>
             task_field CoverLetter (run_task CoverLetter e state) (score_field CoverLetter) = Some (JNum 0)
           \<and> (\<exists>why. task_field CoverLetter (run_task CoverLetter e state) ''thought_process'' = Some (JStr why)))"
  by (rule layer1_fallback [where n = 0],
      simp add: cover_letter_analyst_def assms [simplified] cover_letter_fallback_def)
    simp_all

lemma location_total:
  assumes "task_inputs Location e state = Inr inputs"
  shows "(\<exists>r. run_task Location e state = Inr [(score_key Location, r)])
       \<and> (\<forall>x. ask_backend e (node_name Location) inputs = Inl x \<longrightarrow>
             task_field Location (run_task Location e state) (score_field Location) = Some (JNum 50)
           \<and> (\<exists>why. task_field Location (run_task Location e state) ''thought_process'' = Some (JStr why)))"
  by (rule layer1_fallback [where n = 50],
      simp add: location_coordinator_def assms [simplified] location_fallback_def)
    simp_all

lemma fairness_total:
  assumes "task_inputs Fairness e state = Inr inputs"
  shows "(\<exists>r. run_task Fairness e state = Inr [(score_key Fairness, r)])
       \<and> (\<forall>x. ask_backend e (node_name Fairness) inputs = Inl x \<longrightarrow>
             task_field Fairness (run_task Fairness e state) (score_field Fairness) = Some (JNum 0)
           \<and> (\<exists>why. task_field Fairness (run_task Fairness e state) ''thought_process'' = Some (JStr why)))"
  by (rule layer1_fallback [where n = 0],
      simp add: fairness_auditor_def assms [simplified] fairness_fallback_def)
    simp_all

lemma jd_match_total:
  assumes "task_inputs JdMatch e state = Inr inputs"
  shows "(\<exists>r. run_task JdMatch e state = Inr [(score_key JdMatch, r)])
       \<and> (\<forall>x. ask_backend e (node_name JdMatch) inputs = Inl x \<longrightarrow>
             task_field JdMatch (run_task JdMatch e state) (score_field JdMatch) = Some (JNum 0)
           \<and> (\<exists>why. task_field JdMatch (run_task JdMatch e state) ''thought_process'' = Some (JStr why)))"
proof -
  from assms obtain required_skills where "jd_match_inputs e state = Inr (inputs, required_skills)"
    by (auto simp: and_then_eq_Inr)
  then show ?thesis
    by - (rule layer1_fallback [where n = 0],
        simp add: jd_match_analyst_def jd_match_fallback_def, simp_all)
qed

lemma github_total:
  assumes "task_inputs Github e state = Inr inputs" and "handler_ready Github e state"
  shows "(\<exists>r. run_task Github e state = Inr [(score_key Github, r)])
       \<and> (\<forall>x. ask_backend e (node_name Github) inputs = Inl x \<longrightarrow>
             task_field Github (run_task Github e state) (score_field Github) = Some (JNum 0)
           \<and> (\<exists>why. task_field Github (run_task Github e state) ''thought_process'' = Some (JStr why)))"
proof -
  from assms(1) obtain repos where gi: "github_inputs e state = Inr (inputs, repos)"
    by (auto simp: and_then_eq_Inr)
  with assms(2) obtain n where n: "py_len repos = Inr n"
    by (auto split: sum.splits)
  from gi n show ?thesis
    by - (rule layer1_fallback [where n = 0],
        simp add: github_analyst_def github_fallback_def, simp_all)
qed

lemma referee_total:
  assumes "task_inputs Referee e state = Inr inputs" and "handler_ready Referee e state"
  shows "(\<exists>r. run_task Referee e state = Inr [(score_key Referee, r)])
       \<and> (\<forall>x. ask_backend e (node_name Referee) inputs = Inl x \<longrightarrow>
             (\<exists>n. task_field Referee (run_task Referee e state) (score_field Referee) = Some (JNum n))
           \<and> (\<exists>why. task_field Referee (run_task Referee e state) ''thought_process'' = Some (JStr why)))"
proof -
  from assms(1) obtain v where prep: "referee_prepare e state = Inr v" and inputs: "inputs = referee_inputs v"
    by (auto simp: referee_prompt_def and_then_eq_Inr)
  with assms(2) obtain a where a: "as_num (total_fairness_adjustment v) = Inr a"
    by (auto split: sum.splits)
  have run: "run_task Referee e state = try_backend e ''referee_agent'' inputs ''final_verdict''
       (referee_on_decode v) (referee_on_error v)"
    by (simp add: referee_agent_prepared [OF prep] referee_decide_def inputs)
  show ?thesis
  proof (cases "ask_backend e ''referee_agent'' inputs")
    case (Inl x)
    then show ?thesis
      unfolding run using a
      by (simp add: try_backend_failure task_field_def referee_on_decode_def referee_on_error_def
          referee_fallback_def)
  next
    case (Inr r)
    then show ?thesis
      unfolding run by (simp add: try_backend_reply)
  qed
qed


text \<open>
  C3 (as amended). For each of the seven tasks: once the steps before its \<^verbatim>\<open>try\<close>
  block have succeeded (and, for the GitHub task and the referee, the value their
  handlers compute on is of the right type), the task returns a result under its key and
  does not raise; and when the backend call or the parsing of its reply fails, that
  result is a fallback with a numeric score (0, 50 for the location task, a total
  adjustment of 0 for the audit, the computed final score for the referee) and an
  explanation of the failure.
\<close>

theorem failure_in_try_gives_fallback:
  assumes "task_inputs t e state = Inr inputs" and "handler_ready t e state"
  shows "(\<exists>r. run_task t e state = Inr [(score_key t, r)])
       \<and> (\<forall>x. ask_backend e (node_name t) inputs = Inl x \<longrightarrow>
             (\<exists>n. task_field t (run_task t e state) (score_field t) = Some (JNum n)
                  \<and> (t \<noteq> Referee \<longrightarrow> n = neutral_score t))
           \<and> (\<exists>why. task_field t (run_task t e state) ''thought_process'' = Some (JStr why)))"
proof (cases t)
  case Resume
  with resume_total assms show ?thesis by simp
next
  case CoverLetter
  with cover_letter_total assms show ?thesis by simp
next
  case JdMatch
  with jd_match_total assms show ?thesis by simp
next
  case Github
  with github_total assms show ?thesis by simp
next
  case Location
  with location_total assms show ?thesis by simp
next
  case Fairness
  with fairness_total assms show ?thesis by simp
next
  case Referee
  with referee_total assms show ?thesis by simp
qed

theorem failure_in_try_gives_fallback_witness:
  "run_task Location env_down (initial_state (JObj []) default_criteria)
     = Inr [(''location_score'',
             location_fallback ''Error: down'' ''I encountered an error: down'')]
   \<and> task_field Location (run_task Location env_down (initial_state (JObj []) default_criteria)) ''score''
     = Some (JNum 50)"
proof -
  let ?st = "initial_state (JObj []) default_criteria"
  let ?inputs = "[(''applicant_city'', JStr ''Unknown''), (''applicant_country'', JStr ''Unknown''),
    (''willing_to_relocate'', JBool False), (''job_location_type'', JStr ''Unknown''),
    (''job_city'', JStr ''Unknown''), (''job_country'', JStr ''Unknown'')]"
  have inputs: "task_inputs Location env_down ?st = Inr ?inputs"
    by (simp add: location_inputs_def get2_def initialize_llm_def dict_index_def dict_get_def
        env_down_def initial_state_def)
  have ready: "handler_ready Location env_down ?st"
    by simp
  have fail: "ask_backend env_down (node_name Location) ?inputs = Inl (Exn BackendError ''down'')"
    by (simp add: ask_backend_def env_down_def)
  from failure_in_try_gives_fallback [OF inputs ready] fail
  have "task_field Location (run_task Location env_down ?st) ''score'' = Some (JNum 50)"
    by auto
  moreover have "run_task Location env_down ?st
     = Inr [(''location_score'', location_fallback ''Error: down'' ''I encountered an error: down'')]"
    using inputs fail by (simp add: location_coordinator_def try_backend_failure)
  ultimately show ?thesis by simp
qed

text \<open>
  Against C3 as stated: with \<^verbatim>\<open>GROQ_API_KEY\<close> unset the resume task raises
  \<^verbatim>\<open>ValueError\<close> and the run ends with the error message alone; with the backend
  down and a resume entry that is no dict the task raises \<^verbatim>\<open>AttributeError\<close>.
\<close>

theorem task_raises_before_try:
  "resume_analyst env_no_key (initial_state (JObj []) default_criteria)
     = Inl (Exn ValueError ''GROQ_API_KEY environment variable is not set'')
   \<and> stream_agent_analysis env_no_key all_tasks (JObj []) None
     = [error_message (Exn ValueError ''GROQ_API_KEY environment variable is not set'')]
   \<and> resume_analyst env_down misfiled_resume
     = Inl (Exn AttributeError ''object has no attribute get'')"
  by (simp add: resume_analyst_def resume_inputs_def initialize_llm_def env_no_key_def env_down_def
      stream_agent_analysis_def stream_events_def astream_events_def all_tasks_def
      dict_index_def dict_get_def get2_def initial_state_def misfiled_resume_def emit_def)

end
